theory Spec2Isabelle
  imports Main "HOL-Library.Sublist" "HOL-Library.Word"
begin

section \<open>JavaScript values and the library operations the bot relies on\<close>

text \<open>
  A JavaScript string is a sequence of 16-bit code units, and \<^verbatim>\<open>length\<close>, \<^verbatim>\<open>substring\<close>,
  \<^verbatim>\<open>split\<close> and \<^verbatim>\<open>includes\<close> count and compare code units. \<open>str\<close> gives the code units of
  an ASCII literal of the source, one per character.
\<close>

type_synonym jstring = "16 word list"

definition str :: "string \<Rightarrow> jstring" where
  "str s = map of_char s"

text \<open>
  A number is represented by the text that \<^verbatim>\<open>Number.prototype.toString\<close> prints for it:
  60000 is \<open>Number (str ''60000'')\<close>, 1.5 is \<open>Number (str ''1.5'')\<close> and \<open>10\<^sup>2\<^sup>1\<close> is
  \<open>Number (str ''1e+21'')\<close>. The bot observes a number only through ToString, ToBoolean,
  \<^verbatim>\<open>typeof\<close> and \<^verbatim>\<open>JSON.stringify\<close>, and the text determines them all: the falsy numbers
  0, -0 and NaN print as \<^verbatim>\<open>0\<close>, \<^verbatim>\<open>0\<close> and \<^verbatim>\<open>NaN\<close> and no other number does, and the numbers
  that \<^verbatim>\<open>JSON.stringify\<close> writes as \<^verbatim>\<open>null\<close> print as \<^verbatim>\<open>NaN\<close>, \<^verbatim>\<open>Infinity\<close> and \<^verbatim>\<open>-Infinity\<close>.
\<close>

datatype number = Number jstring

fun number_toString :: "number \<Rightarrow> jstring" where
  "number_toString (Number s) = s"

text \<open>
  The bot (\<^verbatim>\<open>src/index.js\<close>) handles decoded JSON documents, so its values are the
  JSON values together with \<^verbatim>\<open>undefined\<close>, which is what reading an absent property
  gives. An object is the list of its own properties in enumeration order.
\<close>

datatype jsval =
    JUndefined
  | JNull
  | JBool bool
  | JNum number
  | JStr jstring
  | JArr "jsval list"
  | JObj "(jstring \<times> jsval) list"

datatype error = ConfigUnreadable | ConfigUnwritable | TypeError

text \<open>ToBoolean: the test behind \<^verbatim>\<open>if (v)\<close>, \<^verbatim>\<open>!v\<close> and \<^verbatim>\<open>a || b\<close>.\<close>

fun truthy :: "jsval \<Rightarrow> bool" where
  "truthy JUndefined = False"
| "truthy JNull = False"
| "truthy (JBool b) = b"
| "truthy (JNum n) = (number_toString n \<noteq> str ''0'' \<and> number_toString n \<noteq> str ''NaN'')"
| "truthy (JStr s) = (s \<noteq> [])"
| "truthy (JArr xs) = True"
| "truthy (JObj kvs) = True"

text \<open>\<^verbatim>\<open>a || b\<close>: the left operand when it is truthy, the right operand otherwise.\<close>

definition js_or :: "jsval \<Rightarrow> jsval \<Rightarrow> jsval" where
  "js_or a b = (if truthy a then a else b)"

text \<open>
  \<^verbatim>\<open>data.k\<close> for the property names the handler reads (\<^verbatim>\<open>ticker\<close>, \<^verbatim>\<open>sl\<close>, ...),
  none of which is inherited from a prototype: the own property of an object,
  \<^verbatim>\<open>undefined\<close> on every other value. The handler reads properties only after
  \<^verbatim>\<open>Object.keys(data)\<close> has returned, which rules out \<^verbatim>\<open>null\<close> and \<^verbatim>\<open>undefined\<close>.
\<close>

fun get :: "jsval \<Rightarrow> jstring \<Rightarrow> jsval" where
  "get (JObj kvs) k = (case map_of kvs k of Some v \<Rightarrow> v | None \<Rightarrow> JUndefined)"
| "get v k = JUndefined"

text \<open>
  The decimal digits of a natural number: what ToString prints for a length or an
  index, which is below \<open>2\<^sup>3\<^sup>2\<close> and so printed without an exponent.
\<close>

fun digits :: "nat \<Rightarrow> jstring" where
  "digits n =
     (if n < 10 then [of_nat (48 + n)]
      else digits (n div 10) @ [of_nat (48 + n mod 10)])"

declare digits.simps [simp del]

text \<open>
  \<^verbatim>\<open>Object.keys(v)\<close>: the own enumerable property names. It throws a TypeError on
  \<^verbatim>\<open>null\<close> and \<^verbatim>\<open>undefined\<close>; a string and an array have their indices as keys, a
  number and a boolean have none.
\<close>

fun Object_keys :: "jsval \<Rightarrow> error + jstring list" where
  "Object_keys JUndefined = Inl TypeError"
| "Object_keys JNull = Inl TypeError"
| "Object_keys (JBool b) = Inr []"
| "Object_keys (JNum n) = Inr []"
| "Object_keys (JStr s) = Inr (map digits [0..<length s])"
| "Object_keys (JArr xs) = Inr (map digits [0..<length xs])"
| "Object_keys (JObj kvs) = Inr (map fst kvs)"

text \<open>\<^verbatim>\<open>s.includes(t)\<close>: \<open>t\<close> occurs in \<open>s\<close> as a contiguous run of code units.\<close>

definition includes_str :: "jstring \<Rightarrow> jstring \<Rightarrow> bool" where
  "includes_str s t = sublist t s"

text \<open>\<^verbatim>\<open>xs.join(sep)\<close> on strings.\<close>

fun join :: "jstring \<Rightarrow> jstring list \<Rightarrow> jstring" where
  "join sep [] = []"
| "join sep [x] = x"
| "join sep (x # y # ys) = x @ sep @ join sep (y # ys)"

text \<open>
  ToString, the conversion a template literal \<^verbatim>\<open>${v}\<close> applies. An array joins the
  conversions of its elements with commas, \<^verbatim>\<open>null\<close> and \<^verbatim>\<open>undefined\<close> elements giving
  the empty string. An object gives \<^verbatim>\<open>[object Object]\<close>, unless it has an own property
  \<^verbatim>\<open>toString\<close>: a decoded document cannot hold a function, so that property shadows
  \<^verbatim>\<open>Object.prototype.toString\<close> with something that cannot be called and the
  conversion throws a TypeError.
\<close>

fun ToString :: "jsval \<Rightarrow> error + jstring"
  and elements_ToString :: "jsval list \<Rightarrow> error + jstring list" where
  "ToString JUndefined = Inr (str ''undefined'')"
| "ToString JNull = Inr (str ''null'')"
| "ToString (JBool b) = Inr (if b then str ''true'' else str ''false'')"
| "ToString (JNum n) = Inr (number_toString n)"
| "ToString (JStr s) = Inr s"
| "ToString (JArr xs) =
     (case elements_ToString xs of Inl e \<Rightarrow> Inl e | Inr ss \<Rightarrow> Inr (join (str '','') ss))"
| "ToString (JObj kvs) =
     (if str ''toString'' \<in> set (map fst kvs) then Inl TypeError
      else Inr (str ''[object Object]''))"
| "elements_ToString [] = Inr []"
| "elements_ToString (x # xs) =
     (case (if x = JUndefined \<or> x = JNull then Inr [] else ToString x) of
        Inl e \<Rightarrow> Inl e
      | Inr s \<Rightarrow> (case elements_ToString xs of Inl e \<Rightarrow> Inl e | Inr ss \<Rightarrow> Inr (s # ss)))"

text \<open>
  The JSON string literal of a text, as \<^verbatim>\<open>JSON.stringify\<close> writes it: the quotation mark,
  the backslash and the control characters are escaped; a high surrogate followed by a
  low surrogate is a code point and is copied; a surrogate on its own is written as
  \<^verbatim>\<open>\u\<close> and four hexadecimal digits, like the control characters that have no short
  escape.
\<close>

definition hex_digit :: "16 word \<Rightarrow> 16 word" where
  "hex_digit d = (if d < 10 then 0x30 + d else 0x57 + d)"

definition unicode_escape :: "16 word \<Rightarrow> jstring" where
  "unicode_escape c =
     [0x5C, 0x75, hex_digit (c div 0x1000), hex_digit (c div 0x100 mod 0x10),
      hex_digit (c div 0x10 mod 0x10), hex_digit (c mod 0x10)]"

definition quote_unit :: "16 word \<Rightarrow> jstring" where
  "quote_unit c =
     (if c = 0x22 then [0x5C, 0x22]
      else if c = 0x5C then [0x5C, 0x5C]
      else if c = 0x08 then [0x5C, 0x62]
      else if c = 0x09 then [0x5C, 0x74]
      else if c = 0x0A then [0x5C, 0x6E]
      else if c = 0x0C then [0x5C, 0x66]
      else if c = 0x0D then [0x5C, 0x72]
      else if c < 0x20 \<or> (0xD800 \<le> c \<and> c \<le> 0xDFFF) then unicode_escape c
      else [c])"

fun quote_units :: "jstring \<Rightarrow> jstring" where
  "quote_units [] = []"
| "quote_units [c] = quote_unit c"
| "quote_units (c # d # cs) =
     (if 0xD800 \<le> c \<and> c \<le> 0xDBFF \<and> 0xDC00 \<le> d \<and> d \<le> 0xDFFF
      then c # d # quote_units cs
      else quote_unit c @ quote_units (d # cs))"

definition quote :: "jstring \<Rightarrow> jstring" where
  "quote s = [0x22] @ quote_units s @ [0x22]"

text \<open>
  \<^verbatim>\<open>JSON.stringify(v)\<close> with no replacer and no indentation. The result is \<^verbatim>\<open>undefined\<close>
  (here \<open>None\<close>) exactly for \<^verbatim>\<open>undefined\<close>, which an array renders as \<^verbatim>\<open>null\<close> and an
  object leaves out. A number that is not finite is written \<^verbatim>\<open>null\<close>.
\<close>

fun JSON_stringify :: "jsval \<Rightarrow> jstring option"
  and stringify_elements :: "jsval list \<Rightarrow> jstring list"
  and stringify_properties :: "(jstring \<times> jsval) list \<Rightarrow> jstring list" where
  "JSON_stringify JUndefined = None"
| "JSON_stringify JNull = Some (str ''null'')"
| "JSON_stringify (JBool b) = Some (if b then str ''true'' else str ''false'')"
| "JSON_stringify (JNum n) =
     Some (if number_toString n = str ''NaN'' \<or> number_toString n = str ''Infinity''
              \<or> number_toString n = str ''-Infinity''
           then str ''null'' else number_toString n)"
| "JSON_stringify (JStr s) = Some (quote s)"
| "JSON_stringify (JArr xs) =
     Some (str ''['' @ join (str '','') (stringify_elements xs) @ str '']'')"
| "JSON_stringify (JObj kvs) =
     Some (str ''{'' @ join (str '','') (stringify_properties kvs) @ str ''}'')"
| "stringify_elements [] = []"
| "stringify_elements (x # xs) =
     (case JSON_stringify x of None \<Rightarrow> str ''null'' | Some s \<Rightarrow> s) # stringify_elements xs"
| "stringify_properties [] = []"
| "stringify_properties ((k, v) # kvs) =
     (case JSON_stringify v of
        None \<Rightarrow> stringify_properties kvs
      | Some s \<Rightarrow> (quote k @ str '':'' @ s) # stringify_properties kvs)"

text \<open>\<^verbatim>\<open>s.split(' ')\<close>: the pieces of \<open>s\<close> between single spaces, at least one piece.\<close>

fun split_sp :: "jstring \<Rightarrow> jstring list" where
  "split_sp [] = [[]]"
| "split_sp (c # cs) =
     (if c = 0x20 then [] # split_sp cs
      else (case split_sp cs of [] \<Rightarrow> [[c]] | w # ws \<Rightarrow> (c # w) # ws))"

text \<open>Errors are values: \<open>Inl e\<close> is the exception \<open>e\<close> thrown, and a thrown exception
  skips everything that follows.\<close>

definition bind_err :: "error + 'a \<Rightarrow> ('a \<Rightarrow> error + 'b) \<Rightarrow> error + 'b" where
  "bind_err m f = (case m of Inl e \<Rightarrow> Inl e | Inr x \<Rightarrow> f x)"

text \<open>The pictographs of the templates, in code units, and the line feed.\<close>

definition NO_ENTRY :: jstring where "NO_ENTRY = [0xD83D, 0xDEAB]"
definition GREEN_CIRCLE :: jstring where "GREEN_CIRCLE = [0xD83D, 0xDFE2]"
definition RED_CIRCLE :: jstring where "RED_CIRCLE = [0xD83D, 0xDD34]"
definition CHECK_MARK :: jstring where "CHECK_MARK = [0x2705]"
definition INFORMATION :: jstring where "INFORMATION = [0x2139, 0xFE0F]"
definition CROSS_MARK :: jstring where "CROSS_MARK = [0x274C]"
definition BAR_CHART :: jstring where "BAR_CHART = [0xD83D, 0xDCCA]"
definition INBOX_TRAY :: jstring where "INBOX_TRAY = [0xD83D, 0xDCE5]"
definition SIREN :: jstring where "SIREN = [0xD83D, 0xDEA8]"
definition CHART_UP :: jstring where "CHART_UP = [0xD83D, 0xDCC8]"
definition ALARM_CLOCK :: jstring where "ALARM_CLOCK = [0x23F0]"
definition PACKAGE :: jstring where "PACKAGE = [0xD83D, 0xDCE6]"
definition STOP_SIGN :: jstring where "STOP_SIGN = [0xD83D, 0xDED1]"
definition TARGET :: jstring where "TARGET = [0xD83C, 0xDFAF]"
definition LF :: jstring where "LF = [0x0A]"

section \<open>The configuration store\<close>

text \<open>
  \<^verbatim>\<open>config.json\<close> holds \<^verbatim>\<open>enabled\<close> and \<^verbatim>\<open>channels\<close>. \<^verbatim>\<open>getConfig\<close> reads and decodes
  the file on every call and throws when the file is missing or is not JSON
  (\<open>config_file = None\<close>); \<^verbatim>\<open>saveConfig\<close> overwrites the whole file and throws when it cannot
  be written.
\<close>

record config =
  enabled :: bool
  channels :: "jstring list"

record store =
  config_file :: "config option"
  writable :: bool

definition getConfig :: "store \<Rightarrow> error + config" where
  "getConfig st = (case config_file st of None \<Rightarrow> Inl ConfigUnreadable | Some c \<Rightarrow> Inr c)"

definition saveConfig :: "config \<Rightarrow> store \<Rightarrow> error + store" where
  "saveConfig c st = (if writable st then Inr (st\<lparr>config_file := Some c\<rparr>) else Inl ConfigUnwritable)"

section \<open>The admin gate and the bot commands\<close>

text \<open>
  A command arrives with the sender's numeric identity (\<^verbatim>\<open>ctx.from.id\<close>) and the text of
  the message. Running a handler gives the exception that left it, if any, the store
  afterwards, and the replies sent to the sender, in order.
\<close>

record ctx =
  from_id :: number
  message_text :: jstring

datatype reply = Reply jstring | ReplyWithMarkdown jstring

type_synonym outcome = "error option \<times> store \<times> reply list"

text \<open>
  \<^verbatim>\<open>isAdmin(ctx, next)\<close>: \<open>next\<close> is the rest of the middleware chain, that is the
  command's handler. \<open>ADMIN_CHAT_IDS\<close> is the allow-list read from the environment at
  start-up. The line written to the console on a refusal is not modelled.
\<close>

definition isAdmin :: "jstring list \<Rightarrow> ctx \<Rightarrow> (store \<Rightarrow> outcome) \<Rightarrow> store \<Rightarrow> outcome" where
  "isAdmin ADMIN_CHAT_IDS c next st =
     (let userId = number_toString (from_id c) in
      if userId \<in> set ADMIN_CHAT_IDS then next st
      else (None, st, [Reply (NO_ENTRY @ str '' You are not authorized to use this command.'')]))"

definition on_handler :: "ctx \<Rightarrow> store \<Rightarrow> outcome" where
  "on_handler c st =
     (case getConfig st of
        Inl e \<Rightarrow> (Some e, st, [])
      | Inr config \<Rightarrow>
          (case saveConfig (config\<lparr>enabled := True\<rparr>) st of
             Inl e \<Rightarrow> (Some e, st, [])
           | Inr st' \<Rightarrow>
               (None, st',
                [Reply (GREEN_CIRCLE @ str '' Bot is now ON. Signals will be forwarded.'')])))"

definition off_handler :: "ctx \<Rightarrow> store \<Rightarrow> outcome" where
  "off_handler c st =
     (case getConfig st of
        Inl e \<Rightarrow> (Some e, st, [])
      | Inr config \<Rightarrow>
          (case saveConfig (config\<lparr>enabled := False\<rparr>) st of
             Inl e \<Rightarrow> (Some e, st, [])
           | Inr st' \<Rightarrow>
               (None, st', [Reply (RED_CIRCLE @ str '' Bot is now OFF. Signals are paused.'')])))"

definition addchannel_handler :: "ctx \<Rightarrow> store \<Rightarrow> outcome" where
  "addchannel_handler c st =
     (let args = split_sp (message_text c) in
      if length args < 2 then (None, st, [Reply (str ''Usage: /addchannel <channel_id>'')])
      else
        let channelId = args ! 1 in
        (case getConfig st of
           Inl e \<Rightarrow> (Some e, st, [])
         | Inr config \<Rightarrow>
             if channelId \<notin> set (channels config) then
               (case saveConfig (config\<lparr>channels := channels config @ [channelId]\<rparr>) st of
                  Inl e \<Rightarrow> (Some e, st, [])
                | Inr st' \<Rightarrow>
                    (None, st',
                     [Reply (CHECK_MARK @ str '' Channel '' @ channelId @ str '' added.'')]))
             else (None, st, [Reply (INFORMATION @ str '' Channel already in list.'')])))"

definition removechannel_handler :: "ctx \<Rightarrow> store \<Rightarrow> outcome" where
  "removechannel_handler c st =
     (let args = split_sp (message_text c) in
      if length args < 2 then (None, st, [Reply (str ''Usage: /removechannel <channel_id>'')])
      else
        let channelId = args ! 1 in
        (case getConfig st of
           Inl e \<Rightarrow> (Some e, st, [])
         | Inr config \<Rightarrow>
             (case saveConfig
                     (config\<lparr>channels := filter (\<lambda>id. id \<noteq> channelId) (channels config)\<rparr>) st of
                Inl e \<Rightarrow> (Some e, st, [])
              | Inr st' \<Rightarrow>
                  (None, st',
                   [Reply (CROSS_MARK @ str '' Channel '' @ channelId @ str '' removed.'')]))))"

definition list_handler :: "ctx \<Rightarrow> store \<Rightarrow> outcome" where
  "list_handler c st =
     (case getConfig st of
        Inl e \<Rightarrow> (Some e, st, [])
      | Inr config \<Rightarrow>
          let status = (if enabled config then GREEN_CIRCLE @ str '' ON''
                        else RED_CIRCLE @ str '' OFF'');
              msg = BAR_CHART @ str '' *Bot Status:* '' @ status @ LF @ LF @ str ''*Channels:*'';
              msg' = (if length (channels config) = 0 then msg @ LF @ str ''None''
                      else foldl (\<lambda>m id. m @ LF @ str ''- `'' @ id @ str ''`'') msg
                             (channels config))
          in (None, st, [ReplyWithMarkdown msg']))"

text \<open>
  The five registrations \<^verbatim>\<open>bot.command(name, isAdmin, handler)\<close>: every command runs
  its handler behind the gate. Which command a message names is decided by the bot
  framework.
\<close>

datatype command = On | Off | AddChannel | RemoveChannel | ListChannels

fun handler :: "command \<Rightarrow> ctx \<Rightarrow> store \<Rightarrow> outcome" where
  "handler On = on_handler"
| "handler Off = off_handler"
| "handler AddChannel = addchannel_handler"
| "handler RemoveChannel = removechannel_handler"
| "handler ListChannels = list_handler"

definition bot_command :: "jstring list \<Rightarrow> command \<Rightarrow> ctx \<Rightarrow> store \<Rightarrow> outcome" where
  "bot_command ADMIN_CHAT_IDS cmd c st = isAdmin ADMIN_CHAT_IDS c (handler cmd c) st"

section \<open>The webhook endpoint\<close>

text \<open>
  The handler of \<^verbatim>\<open>POST /webhook\<close> sees \<^verbatim>\<open>req.rawBody\<close>, which the JSON body parser
  sets to the text it received, and \<^verbatim>\<open>req.body\<close>: the decoded document, the text of a
  \<^verbatim>\<open>text/plain\<close> request, or whatever the parsers left when neither applied.

  Two operations of the engine are parameters of the handler, so that what is proved
  of it holds for the operations of the engine itself: \<open>JSON_parse\<close> stands for
  \<^verbatim>\<open>JSON.parse\<close>, \<open>None\<close> being the SyntaxError it throws, and \<open>toUpperCase\<close> for
  \<^verbatim>\<open>String.prototype.toUpperCase\<close>, which maps every cased letter of Unicode.
\<close>

record request =
  rawBody :: "jstring option"
  body :: jsval

fun typeof :: "jsval \<Rightarrow> jstring" where
  "typeof JUndefined = str ''undefined''"
| "typeof JNull = str ''object''"
| "typeof (JBool b) = str ''boolean''"
| "typeof (JNum n) = str ''number''"
| "typeof (JStr s) = str ''string''"
| "typeof (JArr xs) = str ''object''"
| "typeof (JObj kvs) = str ''object''"

text \<open>
  Line 124: \<^verbatim>\<open>req.rawBody || (typeof req.body === 'string' ? req.body : JSON.stringify(req.body))\<close>.
  An unset or empty \<^verbatim>\<open>req.rawBody\<close> is falsy. \<open>None\<close> is \<^verbatim>\<open>undefined\<close>.
\<close>

definition raw_body :: "request \<Rightarrow> jstring option" where
  "raw_body req =
     (let alternative =
            (case body req of JStr s \<Rightarrow> Some s | v \<Rightarrow> JSON_stringify v)
      in case rawBody req of
           None \<Rightarrow> alternative
         | Some s \<Rightarrow> if s \<noteq> [] then Some s else alternative)"

text \<open>Line 138. \<^verbatim>\<open>rawBody.substring(0, 800)\<close> is the first 800 code units.\<close>

definition rawMessage :: "jstring \<Rightarrow> jstring" where
  "rawMessage rb =
     INBOX_TRAY @ str '' *WEBHOOK RECEIVED*'' @ LF @ LF @ str ''```'' @ LF @ take 800 rb @ LF
       @ str ''```''"

text \<open>
  Lines 146 to 159: the payload and whether it was obtained. The SyntaxError of
  \<^verbatim>\<open>JSON.parse\<close> is caught there and leaves the empty object.
\<close>

definition parse_body :: "(jstring \<Rightarrow> jsval option) \<Rightarrow> jsval \<Rightarrow> jsval \<times> bool" where
  "parse_body JSON_parse b =
     (if typeof b = str ''string'' then
        (case b of
           JStr s \<Rightarrow> (case JSON_parse s of Some d \<Rightarrow> (d, True) | None \<Rightarrow> (JObj [], False))
         | _ \<Rightarrow> (JObj [], False))
      else if truthy b \<and> typeof b = str ''object'' then (b, True)
      else (JObj [], False))"

text \<open>Lines 163 to 177: the fields of the signal.\<close>

definition ticker_of :: "jsval \<Rightarrow> jsval" where
  "ticker_of data =
     js_or (js_or (get data (str ''ticker'')) (get data (str ''symbol''))) (JStr (str ''Unknown''))"

definition direction_of :: "(jstring \<Rightarrow> jstring) \<Rightarrow> jsval \<Rightarrow> error + jstring" where
  "direction_of toUpperCase data =
     (if truthy (get data (str ''direction'')) then
        (case get data (str ''direction'') of
           JStr s \<Rightarrow>
             Inr (if includes_str (toUpperCase s) (str ''BUY'') then str ''Buy''
                  else if includes_str (toUpperCase s) (str ''SELL'') then str ''Sell''
                  else s)
         | _ \<Rightarrow> Inl TypeError)
      else Inr (str ''Signal''))"

definition entryPrice_of :: "jsval \<Rightarrow> jsval" where
  "entryPrice_of data =
     js_or (js_or (js_or (get data (str ''entry_price'')) (get data (str ''price'')))
                  (get data (str ''close'')))
       (JStr (str ''N/A''))"

definition sl_of :: "jsval \<Rightarrow> jsval" where
  "sl_of data =
     js_or (js_or (get data (str ''sl'')) (get data (str ''stop_loss''))) (JStr (str ''N/A''))"

definition tp1_of :: "jsval \<Rightarrow> jsval" where
  "tp1_of data =
     js_or (js_or (get data (str ''tp1'')) (get data (str ''take_profit''))) (JStr (str ''N/A''))"

definition contracts_of :: "jsval \<Rightarrow> jsval" where
  "contracts_of data = js_or (get data (str ''contracts'')) (JStr (str ''N/A''))"

definition strategy_of :: "jsval \<Rightarrow> jsval" where
  "strategy_of data = js_or (get data (str ''strategy'')) (JStr (str ''N/A''))"

definition timeframe_of :: "jsval \<Rightarrow> jsval" where
  "timeframe_of data = js_or (get data (str ''timeframe'')) (JStr (str ''N/A''))"

text \<open>
  Lines 183 to 187: \<^verbatim>\<open>if (v !== 'N/A' && v !== '') message += ...\<close>. Strict inequality
  holds for every value that is not that very string.
\<close>

definition detail_line :: "jstring \<Rightarrow> jsval \<Rightarrow> jstring \<Rightarrow> error + jstring" where
  "detail_line label v ending =
     (if v \<noteq> JStr (str ''N/A'') \<and> v \<noteq> JStr [] then
        bind_err (ToString v) (\<lambda>s. Inr (label @ s @ ending))
      else Inr [])"

text \<open>Lines 181 to 187: the formatted message, for the direction resolved before.\<close>

definition compose_message :: "(jstring \<Rightarrow> jstring) \<Rightarrow> jsval \<Rightarrow> jstring \<Rightarrow> error + jstring" where
  "compose_message toUpperCase data direction =
     bind_err (ToString (ticker_of data)) (\<lambda>ticker.
     bind_err (ToString (entryPrice_of data)) (\<lambda>entryPrice.
     bind_err (detail_line (BAR_CHART @ str '' *Strategy:* `'') (strategy_of data)
                 (str ''`'' @ LF)) (\<lambda>l1.
     bind_err (detail_line (ALARM_CLOCK @ str '' *Timeframe:* `'') (timeframe_of data)
                 (str ''`'' @ LF)) (\<lambda>l2.
     bind_err (detail_line (PACKAGE @ str '' *Contracts:* `'') (contracts_of data)
                 (str ''`'' @ LF)) (\<lambda>l3.
     bind_err (detail_line (STOP_SIGN @ str '' *SL:* `'') (sl_of data) (str ''`'' @ LF)) (\<lambda>l4.
     bind_err (detail_line (TARGET @ str '' *TP1:* `'') (tp1_of data) (str ''`'')) (\<lambda>l5.
       Inr (SIREN @ str '' *FORMATTED SIGNAL*'' @ LF
            @ CHART_UP @ str '' *'' @ toUpperCase direction @ str '' '' @ ticker @ str '' @ ''
            @ entryPrice @ str ''*'' @ LF
            @ l1 @ l2 @ l3 @ l4 @ l5))))))))"

text \<open>
  Lines 146 to 193 without the sends: the formatted message to broadcast, \<open>Inr None\<close>
  when the step is skipped, \<open>Inl e\<close> when it throws. The direction is resolved before
  the test of line 180, so it throws whether or not a message would be sent.
\<close>

definition formatted_message ::
  "(jstring \<Rightarrow> jsval option) \<Rightarrow> (jstring \<Rightarrow> jstring) \<Rightarrow> request \<Rightarrow> error + jstring option" where
  "formatted_message JSON_parse toUpperCase req =
     (case parse_body JSON_parse (body req) of
        (data, parseSuccess) \<Rightarrow>
          if parseSuccess then
            bind_err (Object_keys data) (\<lambda>keys.
              if length keys > 0 then
                bind_err (direction_of toUpperCase data) (\<lambda>direction.
                  if truthy (js_or (js_or (get data (str ''ticker''))
                                          (get data (str ''direction'')))
                                   (get data (str ''symbol'')))
                  then bind_err (compose_message toUpperCase data direction)
                         (\<lambda>message. Inr (Some message))
                  else Inr None)
              else Inr None)
          else Inr None)"

text \<open>
  A send attempt is recorded with the place that issued it: the raw notification of
  line 141, the formatted message of line 190, or the error notice of line 206, whose
  text is the error template followed by the message of the exception. A failed send
  is caught and logged where it is issued, so the attempts are all there is to record.
  Console output is not modelled.
\<close>

datatype send =
    RawSend jstring jstring
  | FormattedSend jstring jstring
  | ErrorSend jstring error

fun is_raw :: "send \<Rightarrow> bool" where
  "is_raw (RawSend ch m) = True"
| "is_raw s = False"


text \<open>A response is the HTTP status and the JSON document sent back.\<close>

type_synonym response = "nat \<times> jsval"

definition disabled_response :: response where
  "disabled_response =
     (200, JObj [(str ''success'', JBool True), (str ''message'', JStr (str ''Bot is disabled''))])"

definition sent_response :: "nat \<Rightarrow> response" where
  "sent_response n =
     (200, JObj [(str ''success'', JBool True),
                 (str ''message'', JStr (str ''Signal sent to '' @ digits n @ str '' channels''))])"

definition error_response :: response where
  "error_response =
     (500, JObj [(str ''success'', JBool False), (str ''error'', JStr (str ''Internal Error''))])"

text \<open>Lines 120 to 196, the body of \<^verbatim>\<open>try\<close>: the sends attempted, and the response or the
  exception that ended it.\<close>

definition webhook_try ::
  "(jstring \<Rightarrow> jsval option) \<Rightarrow> (jstring \<Rightarrow> jstring) \<Rightarrow> store \<Rightarrow> request
     \<Rightarrow> send list \<times> (error + response)" where
  "webhook_try JSON_parse toUpperCase st req =
     (case getConfig st of
        Inl e \<Rightarrow> ([], Inl e)
      | Inr config \<Rightarrow>
          if \<not> enabled config then ([], Inr disabled_response)
          else
            (case raw_body req of
               None \<Rightarrow> ([], Inl TypeError)
             | Some rb \<Rightarrow>
                 let raw_sends = map (\<lambda>channelId. RawSend channelId (rawMessage rb)) (channels config)
                 in (case formatted_message JSON_parse toUpperCase req of
                       Inl e \<Rightarrow> (raw_sends, Inl e)
                     | Inr None \<Rightarrow> (raw_sends, Inr (sent_response (length (channels config))))
                     | Inr (Some message) \<Rightarrow>
                         (raw_sends
                            @ map (\<lambda>channelId. FormattedSend channelId message) (channels config),
                          Inr (sent_response (length (channels config)))))))"

text \<open>
  Lines 197 to 211, the \<^verbatim>\<open>catch\<close>: the configuration is read again and every channel is
  sent the error; if that read throws too, nothing more is sent. The answer is 500.
\<close>

definition webhook ::
  "(jstring \<Rightarrow> jsval option) \<Rightarrow> (jstring \<Rightarrow> jstring) \<Rightarrow> store \<Rightarrow> request
     \<Rightarrow> send list \<times> response" where
  "webhook JSON_parse toUpperCase st req =
     (case webhook_try JSON_parse toUpperCase st req of
        (sends, Inr response) \<Rightarrow> (sends, response)
      | (sends, Inl error) \<Rightarrow>
          (sends @ (case getConfig st of
                      Inl e \<Rightarrow> []
                    | Inr config \<Rightarrow> map (\<lambda>channelId. ErrorSend channelId error) (channels config)),
           error_response))"

section \<open>Predicates and sample data for stating the properties\<close>

text \<open>A primitive value: anything but an array or an object.\<close>

fun primitive :: "jsval \<Rightarrow> bool" where
  "primitive (JArr xs) = False"
| "primitive (JObj kvs) = False"
| "primitive v = True"

text \<open>A \<^verbatim>\<open>JSON.parse\<close> that rejects every text, for requests whose body needs no decoding
  or is not JSON.\<close>

definition reject_all :: "jstring \<Rightarrow> jsval option" where
  "reject_all s = None"

text \<open>
  \<^verbatim>\<open>String.prototype.toUpperCase\<close> on texts of ASCII code units: the letters a to z
  become A to Z and every other ASCII code unit is kept. It stands in for the case
  mapping in the sample runs, all of which are on ASCII text.
\<close>

definition ascii_toUpperCase :: "jstring \<Rightarrow> jstring" where
  "ascii_toUpperCase s = map (\<lambda>c. if 0x61 \<le> c \<and> c \<le> 0x7A then c - 0x20 else c) s"

definition sample_channel :: jstring where
  "sample_channel = str ''-1001234567890''"

definition store_on :: store where
  "store_on =
     \<lparr>config_file = Some \<lparr>enabled = True, channels = [sample_channel]\<rparr>, writable = True\<rparr>"

definition store_off :: store where
  "store_off =
     \<lparr>config_file = Some \<lparr>enabled = False, channels = [sample_channel]\<rparr>, writable = True\<rparr>"

definition store_unreadable :: store where
  "store_unreadable = \<lparr>config_file = None, writable = True\<rparr>"

definition store_no_channels :: store where
  "store_no_channels = \<lparr>config_file = Some \<lparr>enabled = True, channels = []\<rparr>, writable = True\<rparr>"

text \<open>The scenario of the specification: a JSON request, decoded by the body parser.\<close>

definition scenario_text :: jstring where
  "scenario_text =
     str ''{\"ticker\":\"BTCUSD\",\"direction\":\"strategy.entrylong\",\"sl\":\"60000\"}''"

definition scenario_payload :: jsval where
  "scenario_payload =
     JObj [(str ''ticker'', JStr (str ''BTCUSD'')),
           (str ''direction'', JStr (str ''strategy.entrylong'')),
           (str ''sl'', JStr (str ''60000''))]"

definition scenario_request :: request where
  "scenario_request = \<lparr>rawBody = Some scenario_text, body = scenario_payload\<rparr>"

text \<open>The text that lines 181 to 187 compose for the scenario.\<close>

definition scenario_message :: jstring where
  "scenario_message =
     SIREN @ str '' *FORMATTED SIGNAL*'' @ LF
     @ CHART_UP @ str '' *STRATEGY.ENTRYLONG BTCUSD @ N/A*'' @ LF
     @ STOP_SIGN @ str '' *SL:* `60000`'' @ LF"

text \<open>The other scenario of the specification: the text \<^verbatim>\<open>not json\<close> sent as
  \<^verbatim>\<open>text/plain\<close>.\<close>

definition not_json_request :: request where
  "not_json_request = \<lparr>rawBody = None, body = JStr (str ''not json'')\<rparr>"


text \<open>Payloads with an empty field, as an alert whose placeholder expanded to nothing
  sends them, a payload whose direction is a number, and payloads with an array or an
  object among the values.\<close>

definition empty_sl_payload :: jsval where
  "empty_sl_payload =
     JObj [(str ''ticker'', JStr (str ''BTCUSD'')), (str ''sl'', JStr []),
           (str ''stop_loss'', JStr (str ''59000''))]"

definition empty_ticker_payload :: jsval where
  "empty_ticker_payload = JObj [(str ''ticker'', JStr [])]"

definition empty_ticker_request :: request where
  "empty_ticker_request =
     \<lparr>rawBody = Some (str ''{\"ticker\":\"\"}''), body = empty_ticker_payload\<rparr>"

definition numeric_direction_text :: jstring where
  "numeric_direction_text = str ''{\"ticker\":\"BTCUSD\",\"direction\":1}''"

definition numeric_direction_payload :: jsval where
  "numeric_direction_payload =
     JObj [(str ''ticker'', JStr (str ''BTCUSD'')), (str ''direction'', JNum (Number (str ''1'')))]"

definition numeric_direction_request :: request where
  "numeric_direction_request =
     \<lparr>rawBody = Some numeric_direction_text, body = numeric_direction_payload\<rparr>"

definition tagged_payload :: jsval where
  "tagged_payload =
     JObj [(str ''ticker'', JStr (str ''BTC'')), (str ''tags'', JArr [JStr (str ''a'')])]"

definition tagged_request :: request where
  "tagged_request =
     \<lparr>rawBody = Some (str ''{\"ticker\":\"BTC\",\"tags\":[\"a\"]}''), body = tagged_payload\<rparr>"

definition shadowed_payload :: jsval where
  "shadowed_payload =
     JObj [(str ''ticker'', JObj [(str ''toString'', JNum (Number (str ''1'')))])]"

definition shadowed_request :: request where
  "shadowed_request =
     \<lparr>rawBody = Some (str ''{\"ticker\":{\"toString\":1}}''), body = shadowed_payload\<rparr>"

text \<open>The scenario sent as \<^verbatim>\<open>text/plain\<close>, with decoders that know its text, that give
  \<^verbatim>\<open>null\<close> and that give a number; and a payload with every recognized field.\<close>

definition scenario_text_request :: request where
  "scenario_text_request = \<lparr>rawBody = None, body = JStr scenario_text\<rparr>"

definition decode_scenario :: "jstring \<Rightarrow> jsval option" where
  "decode_scenario s = (if s = scenario_text then Some scenario_payload else None)"

definition decode_null :: "jstring \<Rightarrow> jsval option" where
  "decode_null s = Some JNull"

definition decode_number :: "jstring \<Rightarrow> jsval option" where
  "decode_number s = Some (JNum (Number s))"

definition full_payload :: jsval where
  "full_payload =
     JObj [(str ''symbol'', JStr (str ''ETHUSD'')), (str ''direction'', JStr (str ''strong_sell'')),
           (str ''price'', JNum (Number (str ''3050.5''))), (str ''stop_loss'', JStr (str ''3100'')),
           (str ''take_profit'', JStr (str ''2900'')), (str ''contracts'', JNum (Number (str ''2''))),
           (str ''strategy'', JStr (str ''Breakout'')), (str ''timeframe'', JStr (str ''15''))]"

definition full_request :: request where
  "full_request = \<lparr>rawBody = None, body = full_payload\<rparr>"

definition full_message :: jstring where
  "full_message =
     SIREN @ str '' *FORMATTED SIGNAL*'' @ LF
     @ CHART_UP @ str '' *SELL ETHUSD @ 3050.5*'' @ LF
     @ BAR_CHART @ str '' *Strategy:* `Breakout`'' @ LF
     @ ALARM_CLOCK @ str '' *Timeframe:* `15`'' @ LF
     @ PACKAGE @ str '' *Contracts:* `2`'' @ LF
     @ STOP_SIGN @ str '' *SL:* `3100`'' @ LF
     @ TARGET @ str '' *TP1:* `2900`''"

definition admin_ctx :: "jstring \<Rightarrow> ctx" where
  "admin_ctx t = \<lparr>from_id = Number (str ''42''), message_text = t\<rparr>"

definition stranger_ctx :: "jstring \<Rightarrow> ctx" where
  "stranger_ctx t = \<lparr>from_id = Number (str ''7''), message_text = t\<rparr>"

section \<open>Auxiliary facts\<close>

lemma str_Nil: "str s = [] \<longleftrightarrow> s = []"
  by (simp add: str_def)

lemma truthy_js_or: "truthy (js_or a b) = (truthy a \<or> truthy b)"
  by (simp add: js_or_def)

lemma typeof_string: "typeof b = str ''string'' \<longleftrightarrow> (\<exists>s. b = JStr s)"
  by (cases b) (simp_all add: str_def)

lemma typeof_object:
  "typeof b = str ''object'' \<longleftrightarrow> b = JNull \<or> (\<exists>xs. b = JArr xs) \<or> (\<exists>kvs. b = JObj kvs)"
  by (cases b) (simp_all add: str_def)

lemma JSON_stringify_defined: "v \<noteq> JUndefined \<Longrightarrow> \<exists>s. JSON_stringify v = Some s"
  by (cases v) simp_all

text \<open>What line 124 computes, case by case.\<close>

lemma raw_body_rawBody: "rawBody req = Some s \<Longrightarrow> s \<noteq> [] \<Longrightarrow> raw_body req = Some s"
  by (simp add: raw_body_def)

lemma raw_body_text:
  "rawBody req = None \<or> rawBody req = Some [] \<Longrightarrow> body req = JStr s \<Longrightarrow> raw_body req = Some s"
  by (auto simp: raw_body_def)

lemma raw_body_stringify:
  "rawBody req = None \<or> rawBody req = Some [] \<Longrightarrow> \<forall>s. body req \<noteq> JStr s
     \<Longrightarrow> raw_body req = JSON_stringify (body req)"
  by (cases "body req") (auto simp: raw_body_def)

lemma raw_body_undefined:
  "raw_body req = None \<longleftrightarrow>
     (rawBody req = None \<or> rawBody req = Some []) \<and> body req = JUndefined"
  by (cases "body req") (auto simp: raw_body_def Let_def split: option.splits)

lemma raw_body_defined:
  assumes "body req \<noteq> JUndefined \<or> (\<exists>s. rawBody req = Some s \<and> s \<noteq> [])"
  shows "\<exists>rb. raw_body req = Some rb"
proof -
  have "raw_body req \<noteq> None"
    using assms unfolding raw_body_undefined by auto
  then show ?thesis by auto
qed

lemma filter_raw_sends:
  "filter is_raw (map (\<lambda>ch. RawSend ch m) cs) = map (\<lambda>ch. RawSend ch m) cs"
  "filter is_raw (map (\<lambda>ch. FormattedSend ch m) cs) = []"
  "filter is_raw (map (\<lambda>ch. ErrorSend ch e) cs) = []"
  by (induction cs) simp_all

lemma sent_response_0:
  "sent_response 0 =
     (200, JObj [(str ''success'', JBool True),
                 (str ''message'', JStr (str ''Signal sent to 0 channels''))])"
  by code_simp

lemma sent_response_1:
  "sent_response (Suc 0) =
     (200, JObj [(str ''success'', JBool True),
                 (str ''message'', JStr (str ''Signal sent to 1 channels''))])"
  by code_simp

lemma store_on_config:
  "config_file store_on = Some \<lparr>enabled = True, channels = [sample_channel]\<rparr>"
  by (simp add: store_on_def)

lemma store_off_config:
  "config_file store_off = Some \<lparr>enabled = False, channels = [sample_channel]\<rparr>"
  by (simp add: store_off_def)

lemma store_no_channels_config:
  "config_file store_no_channels = Some \<lparr>enabled = True, channels = []\<rparr>"
  by (simp add: store_no_channels_def)

lemma scenario_raw_body: "raw_body scenario_request = Some scenario_text"
  by code_simp

lemma scenario_stringify: "JSON_stringify scenario_payload = Some scenario_text"
  by code_simp

lemma not_json_raw_body: "raw_body not_json_request = Some (str ''not json'')"
  by code_simp


section \<open>The webhook while forwarding is switched off\<close>

text \<open>
  C1. When the stored configuration has \<open>enabled = false\<close>, a POST to \<^verbatim>\<open>/webhook\<close> attempts
  no send of any kind and is answered with status 200 and the message
  \<^verbatim>\<open>Bot is disabled\<close>. The outcome is the same for every request, every decoder and every
  case mapping, so nothing of the request is formatted before the check.
\<close>

theorem webhook_disabled:
  assumes "config_file st = Some cfg" and "\<not> enabled cfg"
  shows "webhook JSON_parse toUpperCase st req =
           ([], (200, JObj [(str ''success'', JBool True),
                            (str ''message'', JStr (str ''Bot is disabled''))]))"
  using assms by (simp add: webhook_def webhook_try_def getConfig_def disabled_response_def)

theorem webhook_disabled_witness:
  "config_file store_off = Some \<lparr>enabled = False, channels = [sample_channel]\<rparr>
   \<and> \<not> enabled \<lparr>enabled = False, channels = [sample_channel]\<rparr>
   \<and> webhook reject_all ascii_toUpperCase store_off scenario_request =
       ([], (200, JObj [(str ''success'', JBool True),
                        (str ''message'', JStr (str ''Bot is disabled''))]))"
  using webhook_disabled [OF store_off_config, of reject_all ascii_toUpperCase scenario_request]
    store_off_config
  by simp

section \<open>The admin gate\<close>

text \<open>
  C2. A sender whose identity is not on the allow-list changes nothing, whichever of the
  five commands is sent: the stored configuration is the one before, the only reply is
  the rejection, and the gate gives the same outcome for every handler put behind it,
  so the handler is not run.
\<close>

theorem unauthorized_rejected:
  assumes "number_toString (from_id c) \<notin> set ADMIN_CHAT_IDS"
  shows "bot_command ADMIN_CHAT_IDS cmd c st =
           (None, st, [Reply (NO_ENTRY @ str '' You are not authorized to use this command.'')])
         \<and> (\<forall>next. isAdmin ADMIN_CHAT_IDS c next st =
               (None, st,
                [Reply (NO_ENTRY @ str '' You are not authorized to use this command.'')]))"
  using assms by (simp add: bot_command_def isAdmin_def)

theorem unauthorized_rejected_witness:
  "number_toString (from_id (stranger_ctx (str ''/off''))) \<notin> set [str ''42'']
   \<and> bot_command [str ''42''] Off (stranger_ctx (str ''/off'')) store_on =
       (None, store_on,
        [Reply (NO_ENTRY @ str '' You are not authorized to use this command.'')])"
proof -
  have n: "number_toString (from_id (stranger_ctx (str ''/off''))) \<notin> set [str ''42'']"
    by (simp add: stranger_ctx_def str_def)
  from unauthorized_rejected [OF n, of Off store_on] n show ?thesis by simp
qed

section \<open>The raw notification\<close>

text \<open>
  When forwarding is on and line 124 yields a raw body, every entry of the channel list
  is sent one raw notification, in the order of the list, holding the first 800 code
  units of that raw body; this does not depend on the decoder or on the payload, and it
  holds also when the handler throws later on.
\<close>

lemma raw_debug_with_body:
  assumes "config_file st = Some cfg" and "enabled cfg" and "raw_body req = Some rb"
  shows "filter is_raw (fst (webhook JSON_parse toUpperCase st req)) =
           map (\<lambda>channelId. RawSend channelId
                  (INBOX_TRAY @ str '' *WEBHOOK RECEIVED*'' @ LF @ LF @ str ''```'' @ LF
                     @ take 800 rb @ LF @ str ''```''))
               (channels cfg)"
  using assms
  by (simp add: webhook_def webhook_try_def getConfig_def Let_def filter_raw_sends rawMessage_def
           split: sum.splits option.splits)

text \<open>
  The text scenario of the specification: the body \<^verbatim>\<open>not json\<close> with forwarding on
  and one channel gives one raw notification holding that text and no formatted message.
\<close>

lemma not_json_outcome:
  "webhook reject_all ascii_toUpperCase store_on not_json_request =
     ([RawSend sample_channel
         (INBOX_TRAY @ str '' *WEBHOOK RECEIVED*'' @ LF @ LF @ str ''```'' @ LF
            @ str ''not json'' @ LF @ str ''```'')],
      (200, JObj [(str ''success'', JBool True),
                  (str ''message'', JStr (str ''Signal sent to 1 channels''))]))"
  by code_simp


section \<open>The formatted message\<close>

lemma parse_body_success: "parse_body P b = (d, True) \<Longrightarrow> b \<noteq> JUndefined"
  by (cases b) (auto simp: parse_body_def str_def)

lemma parse_body_object: "parse_body P (JObj kvs) = (JObj kvs, True)"
  by (simp add: parse_body_def str_def)

lemma formatted_message_mapping:
  assumes "parse_body P (body req) = (JObj kvs, True)" and "kvs \<noteq> []"
  shows "formatted_message P U req =
           bind_err (direction_of U (JObj kvs)) (\<lambda>direction.
             if truthy (get (JObj kvs) (str ''ticker''))
                \<or> truthy (get (JObj kvs) (str ''direction''))
                \<or> truthy (get (JObj kvs) (str ''symbol''))
             then bind_err (compose_message U (JObj kvs) direction) (\<lambda>message. Inr (Some message))
             else Inr None)"
  using assms by (simp add: formatted_message_def bind_err_def truthy_js_or)



lemma ToString_primitive: "primitive v \<Longrightarrow> \<not> isl (ToString v)"
  by (cases v) simp_all

lemma ToString_object:
  "isl (ToString (JObj kvs)) \<longleftrightarrow> str ''toString'' \<in> fst ` set kvs"
  by simp





lemma direction_of_isl:
  "isl (direction_of U data) \<longleftrightarrow>
     truthy (get data (str ''direction'')) \<and> (\<forall>s. get data (str ''direction'') \<noteq> JStr s)"
  by (cases "get data (str ''direction'')") (simp_all add: direction_of_def)

lemma direction_of_Inl: "direction_of U data = Inl x \<Longrightarrow> x = TypeError"
  by (cases "get data (str ''direction'')") (auto simp: direction_of_def split: if_splits)

lemma direction_not_string:
  assumes "truthy (get data (str ''direction''))" and "\<forall>s. get data (str ''direction'') \<noteq> JStr s"
  shows "direction_of U data = Inl TypeError"
  using assms direction_of_isl [of U data] direction_of_Inl [of U data]
  by (cases "direction_of U data") auto

lemma scenario_parse: "parse_body P (body scenario_request) = (scenario_payload, True)"
  by (simp add: scenario_request_def scenario_payload_def parse_body_object)

lemma scenario_formatted_message:
  "formatted_message reject_all ascii_toUpperCase scenario_request = Inr (Some scenario_message)"
  by code_simp


lemma empty_ticker_raw_body: "raw_body empty_ticker_request = Some (str ''{\"ticker\":\"\"}'')"
  by code_simp

lemma numeric_direction_parse:
  "parse_body P (body numeric_direction_request) = (numeric_direction_payload, True)"
  by (simp add: numeric_direction_request_def numeric_direction_payload_def parse_body_object)

lemma numeric_direction_raw_body:
  "raw_body numeric_direction_request = Some numeric_direction_text"
  by code_simp

lemma numeric_direction_value:
  "get numeric_direction_payload (str ''direction'') = JNum (Number (str ''1''))"
  by code_simp

text \<open>An array among the values does not stop the formatted message; an object with an
  own \<^verbatim>\<open>toString\<close> where a value is displayed does.\<close>

lemma tagged_outcome:
  "webhook reject_all ascii_toUpperCase store_on tagged_request =
     ([RawSend sample_channel (rawMessage (str ''{\"ticker\":\"BTC\",\"tags\":[\"a\"]}'')),
       FormattedSend sample_channel
         (SIREN @ str '' *FORMATTED SIGNAL*'' @ LF @ CHART_UP @ str '' *SIGNAL BTC @ N/A*'' @ LF)],
      sent_response 1)"
  by code_simp

lemma shadowed_outcome:
  "webhook reject_all ascii_toUpperCase store_on shadowed_request =
     ([RawSend sample_channel (rawMessage (str ''{\"ticker\":{\"toString\":1}}'')),
       ErrorSend sample_channel TypeError],
      error_response)"
  by code_simp




section \<open>Field resolution\<close>

text \<open>
  C5, amended. Each field is resolved by \<^verbatim>\<open>||\<close>, so the first alternative with a truthy
  value wins: stop-loss is the value of \<^verbatim>\<open>sl\<close> when that is truthy, and \<^verbatim>\<open>stop_loss\<close> is
  then not consulted; when \<^verbatim>\<open>sl\<close> is absent or falsy (the empty string, 0, false, null)
  it is the value of \<^verbatim>\<open>stop_loss\<close> if truthy, and \<^verbatim>\<open>N/A\<close> otherwise. Likewise \<^verbatim>\<open>ticker\<close>
  before \<^verbatim>\<open>symbol\<close> before \<^verbatim>\<open>Unknown\<close>, \<^verbatim>\<open>entry_price\<close> before \<^verbatim>\<open>price\<close> before \<^verbatim>\<open>close\<close>
  before \<^verbatim>\<open>N/A\<close>, \<^verbatim>\<open>tp1\<close> before \<^verbatim>\<open>take_profit\<close> before \<^verbatim>\<open>N/A\<close>; contracts, strategy and
  timeframe default to \<^verbatim>\<open>N/A\<close>, and a direction that is absent or falsy to \<^verbatim>\<open>Signal\<close>.
\<close>

theorem field_resolution:
  "ticker_of data =
     (if truthy (get data (str ''ticker'')) then get data (str ''ticker'')
      else if truthy (get data (str ''symbol'')) then get data (str ''symbol'')
      else JStr (str ''Unknown''))
   \<and> entryPrice_of data =
     (if truthy (get data (str ''entry_price'')) then get data (str ''entry_price'')
      else if truthy (get data (str ''price'')) then get data (str ''price'')
      else if truthy (get data (str ''close'')) then get data (str ''close'')
      else JStr (str ''N/A''))
   \<and> sl_of data =
     (if truthy (get data (str ''sl'')) then get data (str ''sl'')
      else if truthy (get data (str ''stop_loss'')) then get data (str ''stop_loss'')
      else JStr (str ''N/A''))
   \<and> tp1_of data =
     (if truthy (get data (str ''tp1'')) then get data (str ''tp1'')
      else if truthy (get data (str ''take_profit'')) then get data (str ''take_profit'')
      else JStr (str ''N/A''))
   \<and> contracts_of data =
     (if truthy (get data (str ''contracts'')) then get data (str ''contracts'')
      else JStr (str ''N/A''))
   \<and> strategy_of data =
     (if truthy (get data (str ''strategy'')) then get data (str ''strategy'')
      else JStr (str ''N/A''))
   \<and> timeframe_of data =
     (if truthy (get data (str ''timeframe'')) then get data (str ''timeframe'')
      else JStr (str ''N/A''))
   \<and> (\<not> truthy (get data (str ''direction''))
        \<longrightarrow> direction_of toUpperCase data = Inr (str ''Signal''))"
  by (simp add: ticker_of_def entryPrice_of_def sl_of_def tp1_of_def contracts_of_def
        strategy_of_def timeframe_of_def direction_of_def js_or_def)

theorem field_resolution_witness:
  "\<not> truthy (get empty_sl_payload (str ''direction''))
   \<and> ticker_of empty_sl_payload = JStr (str ''BTCUSD'')
   \<and> entryPrice_of empty_sl_payload = JStr (str ''N/A'')
   \<and> sl_of empty_sl_payload = JStr (str ''59000'')
   \<and> tp1_of empty_sl_payload = JStr (str ''N/A'')
   \<and> direction_of ascii_toUpperCase empty_sl_payload = Inr (str ''Signal'')"
proof -
  have g: "get empty_sl_payload (str ''direction'') = JUndefined"
    "get empty_sl_payload (str ''ticker'') = JStr (str ''BTCUSD'')"
    "get empty_sl_payload (str ''entry_price'') = JUndefined"
    "get empty_sl_payload (str ''price'') = JUndefined"
    "get empty_sl_payload (str ''close'') = JUndefined"
    "get empty_sl_payload (str ''sl'') = JStr []"
    "get empty_sl_payload (str ''stop_loss'') = JStr (str ''59000'')"
    "get empty_sl_payload (str ''tp1'') = JUndefined"
    "get empty_sl_payload (str ''take_profit'') = JUndefined"
    by code_simp+
  from field_resolution [of empty_sl_payload ascii_toUpperCase] show ?thesis
    by (simp add: g str_Nil)
qed

text \<open>
  C5 as worded fails for a field that is present and empty: with \<^verbatim>\<open>sl\<close> the empty string
  and \<^verbatim>\<open>stop_loss\<close> 59000, stop-loss resolves to 59000, not to the value of \<^verbatim>\<open>sl\<close>.
\<close>

theorem empty_sl_falls_through:
  "get empty_sl_payload (str ''sl'') = JStr []
   \<and> get empty_sl_payload (str ''stop_loss'') = JStr (str ''59000'')
   \<and> sl_of empty_sl_payload = JStr (str ''59000'')
   \<and> sl_of empty_sl_payload \<noteq> get empty_sl_payload (str ''sl'')"
  by code_simp

section \<open>The scenario of the specification\<close>

lemma ascii_upper_scenario:
  "ascii_toUpperCase (str ''strategy.entrylong'') = str ''STRATEGY.ENTRYLONG''"
  by code_simp

lemma scenario_fields:
  "get scenario_payload (str ''ticker'') = JStr (str ''BTCUSD'')"
  "get scenario_payload (str ''direction'') = JStr (str ''strategy.entrylong'')"
  "get scenario_payload (str ''symbol'') = JUndefined"
  "ToString (ticker_of scenario_payload) = Inr (str ''BTCUSD'')"
  "ToString (entryPrice_of scenario_payload) = Inr (str ''N/A'')"
  "strategy_of scenario_payload = JStr (str ''N/A'')"
  "timeframe_of scenario_payload = JStr (str ''N/A'')"
  "contracts_of scenario_payload = JStr (str ''N/A'')"
  "sl_of scenario_payload = JStr (str ''60000'')"
  "tp1_of scenario_payload = JStr (str ''N/A'')"
  by code_simp+

lemma scenario_sl_line:
  "detail_line (STOP_SIGN @ str '' *SL:* `'') (JStr (str ''60000'')) (str ''`'' @ LF)
     = Inr (STOP_SIGN @ str '' *SL:* `60000`'' @ LF)"
  by code_simp

lemma scenario_header:
  "CHART_UP @ str '' *'' @ str ''STRATEGY.ENTRYLONG'' @ str '' '' @ str ''BTCUSD'' @ str '' @ ''
     @ str ''N/A'' @ str ''*'' @ LF
   = CHART_UP @ str '' *STRATEGY.ENTRYLONG BTCUSD @ N/A*'' @ LF"
  by (simp add: str_def)

lemma scenario_not_buy_sell:
  "\<not> includes_str (str ''STRATEGY.ENTRYLONG'') (str ''BUY'')"
  "\<not> includes_str (str ''STRATEGY.ENTRYLONG'') (str ''SELL'')"
  by code_simp+

lemma scenario_direction:
  assumes "toUpperCase (str ''strategy.entrylong'') = str ''STRATEGY.ENTRYLONG''"
  shows "direction_of toUpperCase scenario_payload = Inr (str ''strategy.entrylong'')"
  by (simp add: direction_of_def scenario_fields(2) assms scenario_not_buy_sell str_Nil)

lemma scenario_compose:
  assumes "toUpperCase (str ''strategy.entrylong'') = str ''STRATEGY.ENTRYLONG''"
  shows "compose_message toUpperCase scenario_payload (str ''strategy.entrylong'')
           = Inr scenario_message"
proof -
  have na: "detail_line l (JStr (str ''N/A'')) e = Inr []" for l e
    by (simp add: detail_line_def)
  show ?thesis
    unfolding compose_message_def scenario_fields na scenario_sl_line bind_err_def assms
      scenario_message_def
    using scenario_header by simp
qed

lemma scenario_formatted:
  assumes "toUpperCase (str ''strategy.entrylong'') = str ''STRATEGY.ENTRYLONG''"
  shows "formatted_message JSON_parse toUpperCase scenario_request = Inr (Some scenario_message)"
proof -
  have p: "parse_body JSON_parse (body scenario_request) =
             (JObj [(str ''ticker'', JStr (str ''BTCUSD'')),
                    (str ''direction'', JStr (str ''strategy.entrylong'')),
                    (str ''sl'', JStr (str ''60000''))], True)"
    using scenario_parse [of JSON_parse] by (simp add: scenario_payload_def)
  have "formatted_message JSON_parse toUpperCase scenario_request =
          bind_err (direction_of toUpperCase scenario_payload) (\<lambda>direction.
             if truthy (get scenario_payload (str ''ticker''))
                \<or> truthy (get scenario_payload (str ''direction''))
                \<or> truthy (get scenario_payload (str ''symbol''))
             then bind_err (compose_message toUpperCase scenario_payload direction)
                    (\<lambda>message. Inr (Some message))
             else Inr None)"
    unfolding scenario_payload_def by (rule formatted_message_mapping [OF p]) simp
  then show ?thesis
    by (simp add: scenario_direction [where toUpperCase = toUpperCase, OF assms]
          scenario_compose [where toUpperCase = toUpperCase, OF assms] bind_err_def
          scenario_fields(1) str_Nil)
qed

lemma scenario_message_parts:
  "\<not> includes_str scenario_message (str ''Buy BTCUSD'')"
  "includes_str scenario_message (str ''STRATEGY.ENTRYLONG BTCUSD'')"
  "includes_str scenario_message (STOP_SIGN @ str '' *SL:* `60000`'')"
  "\<not> includes_str scenario_message (str ''TP1'')"
  by code_simp+

text \<open>
  C6, amended. For the payload
  \<^verbatim>\<open>{"ticker":"BTCUSD","direction":"strategy.entrylong","sl":"60000"}\<close>, one channel and
  forwarding on, the handler attempts the raw notification and one formatted message.
  The direction resolves to the value as sent, \<^verbatim>\<open>strategy.entrylong\<close>, not to Buy or
  Sell, and the header line shows it in upper case: the message reads
  \<^verbatim>\<open>STRATEGY.ENTRYLONG BTCUSD @ N/A\<close>, does not contain \<^verbatim>\<open>Buy BTCUSD\<close>, has the SL line with
  60000 and has no TP1 line. This holds for every decoder and for every case mapping
  that turns \<^verbatim>\<open>strategy.entrylong\<close> into \<^verbatim>\<open>STRATEGY.ENTRYLONG\<close>, as that of JavaScript does.
\<close>

theorem scenario_outcome:
  assumes "toUpperCase (str ''strategy.entrylong'') = str ''STRATEGY.ENTRYLONG''"
  shows "webhook JSON_parse toUpperCase store_on scenario_request =
     ([RawSend sample_channel (rawMessage scenario_text),
       FormattedSend sample_channel scenario_message],
      (200, JObj [(str ''success'', JBool True),
                  (str ''message'', JStr (str ''Signal sent to 1 channels''))]))
   \<and> direction_of toUpperCase (body scenario_request) = Inr (str ''strategy.entrylong'')
   \<and> scenario_message =
       SIREN @ str '' *FORMATTED SIGNAL*'' @ LF
       @ CHART_UP @ str '' *STRATEGY.ENTRYLONG BTCUSD @ N/A*'' @ LF
       @ STOP_SIGN @ str '' *SL:* `60000`'' @ LF
   \<and> \<not> includes_str scenario_message (str ''Buy BTCUSD'')
   \<and> includes_str scenario_message (str ''STRATEGY.ENTRYLONG BTCUSD'')
   \<and> includes_str scenario_message (STOP_SIGN @ str '' *SL:* `60000`'')
   \<and> \<not> includes_str scenario_message (str ''TP1'')"
proof -
  have w: "webhook JSON_parse toUpperCase store_on scenario_request =
     ([RawSend sample_channel (rawMessage scenario_text),
       FormattedSend sample_channel scenario_message],
      (200, JObj [(str ''success'', JBool True),
                  (str ''message'', JStr (str ''Signal sent to 1 channels''))]))"
    by (simp add: webhook_def webhook_try_def getConfig_def store_on_def scenario_raw_body
          scenario_formatted [where toUpperCase = toUpperCase, OF assms] sent_response_1)
  have d: "direction_of toUpperCase (body scenario_request) = Inr (str ''strategy.entrylong'')"
    using scenario_direction [where toUpperCase = toUpperCase, OF assms]
    by (simp add: scenario_request_def)
  show ?thesis
    using w d scenario_message_parts by (simp add: scenario_message_def)
qed

theorem scenario_outcome_witness:
  "ascii_toUpperCase (str ''strategy.entrylong'') = str ''STRATEGY.ENTRYLONG''
   \<and> webhook reject_all ascii_toUpperCase store_on scenario_request =
     ([RawSend sample_channel (rawMessage scenario_text),
       FormattedSend sample_channel scenario_message],
      (200, JObj [(str ''success'', JBool True),
                  (str ''message'', JStr (str ''Signal sent to 1 channels''))]))
   \<and> direction_of ascii_toUpperCase (body scenario_request) = Inr (str ''strategy.entrylong'')"
  using scenario_outcome [where toUpperCase = ascii_toUpperCase and JSON_parse = reject_all,
          OF ascii_upper_scenario]
    ascii_upper_scenario
  by simp

text \<open>
  C6 as worded fails on the text of the message: the formatted message of the scenario
  does not contain the direction as sent, \<^verbatim>\<open>strategy.entrylong\<close>, because line 182 puts
  the direction in upper case.
\<close>

theorem scenario_upper_cased:
  "formatted_message reject_all ascii_toUpperCase scenario_request = Inr (Some scenario_message)
   \<and> \<not> includes_str scenario_message (str ''strategy.entrylong'')"
proof -
  have "\<not> includes_str scenario_message (str ''strategy.entrylong'')" by code_simp
  then show ?thesis using scenario_formatted_message by simp
qed

section \<open>Exceptions in the webhook handler\<close>

text \<open>
  C9. Take a request that arrives while forwarding is on and whose body is, or decodes
  to, a mapping with at least one key in which \<^verbatim>\<open>direction\<close> is truthy and not a string.
  Normalising the direction throws a TypeError (the value has no \<^verbatim>\<open>toUpperCase\<close>). The raw
  notification has been attempted on every channel by then; the \<^verbatim>\<open>catch\<close> block attempts
  an error notice on every channel and the answer is status 500 with
  \<^verbatim>\<open>{success: false, error: "Internal Error"}\<close>.
\<close>

theorem direction_not_string_500:
  assumes "config_file st = Some cfg" and "enabled cfg"
    and "parse_body JSON_parse (body req) = (JObj kvs, True)" and "kvs \<noteq> []"
    and "truthy (get (JObj kvs) (str ''direction''))"
    and "\<forall>s. get (JObj kvs) (str ''direction'') \<noteq> JStr s"
  shows "direction_of toUpperCase (JObj kvs) = Inl TypeError
         \<and> (\<exists>rb. raw_body req = Some rb
               \<and> webhook JSON_parse toUpperCase st req =
                   (map (\<lambda>channelId. RawSend channelId (rawMessage rb)) (channels cfg)
                      @ map (\<lambda>channelId. ErrorSend channelId TypeError) (channels cfg),
                    (500, JObj [(str ''success'', JBool False),
                                (str ''error'', JStr (str ''Internal Error''))])))"
proof -
  have d: "direction_of toUpperCase (JObj kvs) = Inl TypeError"
    using assms(5,6) by (rule direction_not_string)
  have f: "formatted_message JSON_parse toUpperCase req = Inl TypeError"
    using formatted_message_mapping [OF assms(3,4)] d by (simp add: bind_err_def)
  have "body req \<noteq> JUndefined" using assms(3) by (rule parse_body_success)
  then obtain rb where rb: "raw_body req = Some rb"
    using raw_body_defined by blast
  have "webhook JSON_parse toUpperCase st req =
          (map (\<lambda>channelId. RawSend channelId (rawMessage rb)) (channels cfg)
             @ map (\<lambda>channelId. ErrorSend channelId TypeError) (channels cfg),
           (500, JObj [(str ''success'', JBool False),
                       (str ''error'', JStr (str ''Internal Error''))]))"
    using assms(1,2) rb f
    by (simp add: webhook_def webhook_try_def getConfig_def error_response_def)
  with d rb show ?thesis by blast
qed

theorem direction_not_string_500_witness:
  "config_file store_on = Some \<lparr>enabled = True, channels = [sample_channel]\<rparr>
   \<and> parse_body reject_all (body numeric_direction_request) = (numeric_direction_payload, True)
   \<and> truthy (get numeric_direction_payload (str ''direction''))
   \<and> get numeric_direction_payload (str ''direction'') = JNum (Number (str ''1''))
   \<and> direction_of ascii_toUpperCase numeric_direction_payload = Inl TypeError
   \<and> webhook reject_all ascii_toUpperCase store_on numeric_direction_request =
       ([RawSend sample_channel (rawMessage numeric_direction_text),
         ErrorSend sample_channel TypeError],
        (500, JObj [(str ''success'', JBool False),
                    (str ''error'', JStr (str ''Internal Error''))]))"
proof -
  let ?kvs = "[(str ''ticker'', JStr (str ''BTCUSD'')),
               (str ''direction'', JNum (Number (str ''1'')))]"
  have k: "numeric_direction_payload = JObj ?kvs"
    by (simp add: numeric_direction_payload_def)
  have p: "parse_body reject_all (body numeric_direction_request) = (JObj ?kvs, True)"
    using numeric_direction_parse [of reject_all] k by simp
  have t: "truthy (get (JObj ?kvs) (str ''direction''))"
    using numeric_direction_value unfolding k by (simp add: str_def)
  have n: "\<forall>s. get (JObj ?kvs) (str ''direction'') \<noteq> JStr s"
    using numeric_direction_value unfolding k by simp
  from direction_not_string_500 [OF store_on_config _ p _ t n, of ascii_toUpperCase]
    t store_on_config numeric_direction_parse [of reject_all] numeric_direction_value
  show ?thesis unfolding k [symmetric] by (auto simp: numeric_direction_raw_body)
qed

section \<open>An empty channel list\<close>

text \<open>
  C10, amended. When forwarding is on and the channel list is empty, the handler attempts
  no send at all. It answers status 200 with \<^verbatim>\<open>Signal sent to 0 channels\<close> provided
  nothing throws, that is when the raw body is defined and neither the inspection of the
  payload nor the composition of the message throws; otherwise the \<^verbatim>\<open>catch\<close> block answers
  status 500 with \<^verbatim>\<open>Internal Error\<close>.
\<close>

theorem empty_channels_outcome:
  assumes "config_file st = Some cfg" and "enabled cfg" and "channels cfg = []"
  shows "fst (webhook JSON_parse toUpperCase st req) = []
         \<and> snd (webhook JSON_parse toUpperCase st req) =
             (if raw_body req \<noteq> None \<and> \<not> isl (formatted_message JSON_parse toUpperCase req)
              then (200, JObj [(str ''success'', JBool True),
                               (str ''message'', JStr (str ''Signal sent to 0 channels''))])
              else (500, JObj [(str ''success'', JBool False),
                               (str ''error'', JStr (str ''Internal Error''))]))"
  using assms
  by (auto simp: webhook_def webhook_try_def getConfig_def sent_response_0 error_response_def
                 Let_def
           split: sum.splits option.splits)

theorem empty_channels_outcome_witness:
  "config_file store_no_channels = Some \<lparr>enabled = True, channels = []\<rparr>
   \<and> enabled \<lparr>enabled = True, channels = []\<rparr>
   \<and> channels \<lparr>enabled = True, channels = []\<rparr> = []
   \<and> fst (webhook reject_all ascii_toUpperCase store_no_channels scenario_request) = []
   \<and> snd (webhook reject_all ascii_toUpperCase store_no_channels scenario_request) =
       (200, JObj [(str ''success'', JBool True),
                   (str ''message'', JStr (str ''Signal sent to 0 channels''))])"
  using empty_channels_outcome [OF store_no_channels_config,
          of reject_all ascii_toUpperCase scenario_request]
    store_no_channels_config
  by (simp add: scenario_raw_body scenario_formatted_message)

text \<open>
  C10 as worded fails where the handler throws: with forwarding on, no channel and the
  payload \<^verbatim>\<open>{"ticker":"BTCUSD","direction":1}\<close>, no send is attempted and the answer is
  status 500, not 200.
\<close>

theorem empty_channels_500:
  "config_file store_no_channels = Some \<lparr>enabled = True, channels = []\<rparr>
   \<and> webhook reject_all ascii_toUpperCase store_no_channels numeric_direction_request =
       ([], (500, JObj [(str ''success'', JBool False),
                        (str ''error'', JStr (str ''Internal Error''))]))"
proof -
  have "webhook reject_all ascii_toUpperCase store_no_channels numeric_direction_request =
       ([], (500, JObj [(str ''success'', JBool False),
                        (str ''error'', JStr (str ''Internal Error''))]))"
    by code_simp
  then show ?thesis using store_no_channels_config by simp
qed

section \<open>The commands of an authorized sender\<close>

lemma split_addchannel:
  "split_sp (str ''/addchannel -1001234567890'') = [str ''/addchannel'', str ''-1001234567890'']"
  by code_simp

lemma admin_known: "number_toString (from_id (admin_ctx t)) \<in> set [str ''42'']"
  by (simp add: admin_ctx_def)

text \<open>
  C7. Let an authorized sender send \<^verbatim>\<open>/addchannel\<close> with an argument twice in a row, from
  any store. The second call leaves the store, hence the channel list, as the first call
  left it; and when the first call completed, the second completes too and replies that
  the channel is already in the list.
\<close>

theorem addchannel_idempotent:
  assumes "number_toString (from_id c) \<in> set ADMIN_CHAT_IDS"
    and "2 \<le> length (split_sp (message_text c))"
    and "bot_command ADMIN_CHAT_IDS AddChannel c st = (e1, st1, r1)"
    and "bot_command ADMIN_CHAT_IDS AddChannel c st1 = (e2, st2, r2)"
  shows "st2 = st1
         \<and> (e1 = None
              \<longrightarrow> e2 = None \<and> r2 = [Reply (INFORMATION @ str '' Channel already in list.'')])"
  using assms
  by (auto simp: bot_command_def isAdmin_def addchannel_handler_def getConfig_def saveConfig_def
                 Let_def split: option.splits if_splits)

theorem addchannel_idempotent_witness:
  "bot_command [str ''42''] AddChannel (admin_ctx (str ''/addchannel -1001234567890''))
       store_no_channels
     = (None, store_on, [Reply (CHECK_MARK @ str '' Channel -1001234567890 added.'')])
   \<and> bot_command [str ''42''] AddChannel (admin_ctx (str ''/addchannel -1001234567890''))
       store_on
     = (None, store_on, [Reply (INFORMATION @ str '' Channel already in list.'')])"
proof -
  let ?c = "admin_ctx (str ''/addchannel -1001234567890'')"
  have l: "2 \<le> length (split_sp (message_text ?c))"
    by (simp add: admin_ctx_def split_addchannel)
  have f: "bot_command [str ''42''] AddChannel ?c store_no_channels
             = (None, store_on, [Reply (CHECK_MARK @ str '' Channel -1001234567890 added.'')])"
    by code_simp
  obtain e2 st2 r2 where s: "bot_command [str ''42''] AddChannel ?c store_on = (e2, st2, r2)"
    by (metis prod_cases3)
  from addchannel_idempotent [OF admin_known l f s] s f show ?thesis by simp
qed

text \<open>
  C8, amended. A command of an authorized sender either completes, and then the sender
  receives exactly one reply (the confirmation, the notice that the channel is already
  listed, the usage hint or the listing), or it ends with the exception of the store:
  ConfigUnreadable when the configuration cannot be loaded, ConfigUnwritable when it
  cannot be saved. The exception leaves the handler before any reply is sent and with
  the store as it was. When the store can be read and written every command completes.
\<close>

theorem command_reply_or_throw:
  assumes "number_toString (from_id c) \<in> set ADMIN_CHAT_IDS"
    and "bot_command ADMIN_CHAT_IDS cmd c st = (e, st', rs)"
  shows "(e = None \<longrightarrow> length rs = 1)
         \<and> (e \<noteq> None \<longrightarrow> rs = [] \<and> st' = st
               \<and> (e = Some ConfigUnreadable \<and> config_file st = None
                    \<or> e = Some ConfigUnwritable \<and> \<not> writable st))
         \<and> (config_file st \<noteq> None \<and> writable st \<longrightarrow> e = None)"
  using assms
  by (cases cmd)
     (auto simp: bot_command_def isAdmin_def on_handler_def off_handler_def addchannel_handler_def
                 removechannel_handler_def list_handler_def getConfig_def saveConfig_def Let_def
           split: option.splits if_splits)

theorem command_reply_or_throw_witness:
  "number_toString (from_id (admin_ctx (str ''/list''))) \<in> set [str ''42'']
   \<and> bot_command [str ''42''] ListChannels (admin_ctx (str ''/list'')) store_on
       = (None, store_on,
          [ReplyWithMarkdown (BAR_CHART @ str '' *Bot Status:* '' @ GREEN_CIRCLE @ str '' ON''
             @ LF @ LF @ str ''*Channels:*'' @ LF @ str ''- `-1001234567890`'')])
   \<and> length [ReplyWithMarkdown (BAR_CHART @ str '' *Bot Status:* '' @ GREEN_CIRCLE @ str '' ON''
             @ LF @ LF @ str ''*Channels:*'' @ LF @ str ''- `-1001234567890`'')] = 1"
proof -
  let ?c = "admin_ctx (str ''/list'')"
  have f: "bot_command [str ''42''] ListChannels ?c store_on
       = (None, store_on,
          [ReplyWithMarkdown (BAR_CHART @ str '' *Bot Status:* '' @ GREEN_CIRCLE @ str '' ON''
             @ LF @ LF @ str ''*Channels:*'' @ LF @ str ''- `-1001234567890`'')])"
    by code_simp
  from command_reply_or_throw [OF admin_known f] admin_known [of "str ''/list''"] f
  show ?thesis by simp
qed

text \<open>
  C8 as worded fails when the configuration cannot be loaded: \<^verbatim>\<open>/on\<close> from an authorized
  sender ends with ConfigUnreadable and the sender receives no reply.
\<close>

theorem on_unreadable_no_reply:
  "number_toString (from_id (admin_ctx (str ''/on''))) \<in> set [str ''42'']
   \<and> bot_command [str ''42''] On (admin_ctx (str ''/on'')) store_unreadable =
       (Some ConfigUnreadable, store_unreadable, [])"
  by (simp add: bot_command_def isAdmin_def on_handler_def getConfig_def store_unreadable_def
        admin_ctx_def)

section \<open>Sample runs\<close>

text \<open>The handler and the commands on concrete inputs, one for each path of the source.\<close>

lemma run_text_scenario:
  "webhook decode_scenario ascii_toUpperCase store_on scenario_text_request =
     ([RawSend sample_channel (rawMessage scenario_text),
       FormattedSend sample_channel scenario_message],
      sent_response 1)"
  by code_simp

lemma run_null_payload:
  "webhook decode_null ascii_toUpperCase store_on scenario_text_request =
     ([RawSend sample_channel (rawMessage scenario_text), ErrorSend sample_channel TypeError],
      error_response)"
  by code_simp

lemma run_number_payload:
  "webhook decode_number ascii_toUpperCase store_on scenario_text_request =
     ([RawSend sample_channel (rawMessage scenario_text)], sent_response 1)"
  by code_simp

lemma run_full_payload:
  "raw_body full_request = JSON_stringify full_payload"
  "JSON_stringify full_payload =
     Some (str ''{\"symbol\":\"ETHUSD\",\"direction\":\"strong_sell\",\"price\":3050.5,''
           @ str ''\"stop_loss\":\"3100\",\"take_profit\":\"2900\",\"contracts\":2,''
           @ str ''\"strategy\":\"Breakout\",\"timeframe\":\"15\"}'')"
  "direction_of ascii_toUpperCase full_payload = Inr (str ''Sell'')"
  "formatted_message reject_all ascii_toUpperCase full_request = Inr (Some full_message)"
  by code_simp+

lemma run_buy:
  "direction_of ascii_toUpperCase (JObj [(str ''direction'', JStr (str ''buy''))]) = Inr (str ''Buy'')"
  "direction_of ascii_toUpperCase (JObj [(str ''direction'', JStr (str ''buy or sell''))])
     = Inr (str ''Buy'')"
  by code_simp+

lemma run_unreadable:
  "webhook reject_all ascii_toUpperCase store_unreadable scenario_request = ([], error_response)"
  by code_simp

lemma run_long_body:
  "length (take 800 (replicate 798 0x61 @ [0x20AC, 0x20AC, 0x62] :: jstring)) = 800"
  "rawMessage (replicate 798 0x61 @ [0x20AC, 0x20AC, 0x62]) =
     INBOX_TRAY @ str '' *WEBHOOK RECEIVED*'' @ LF @ LF @ str ''```'' @ LF
       @ replicate 798 0x61 @ [0x20AC, 0x20AC] @ LF @ str ''```''"
  by (simp_all add: rawMessage_def)

lemma run_ToString:
  "ToString (JArr [JNum (Number (str ''1'')), JNull, JArr [JStr (str ''a''), JBool True], JObj []])
     = Inr (str ''1,,a,true,[object Object]'')"
  "ToString (JArr [JObj [(str ''toString'', JNull)]]) = Inl TypeError"
  by code_simp+

lemma run_Object_keys:
  "Object_keys (JStr (str ''abc'')) = Inr [str ''0'', str ''1'', str ''2'']"
  "Object_keys (JArr []) = Inr []"
  by code_simp+

lemma run_on:
  "bot_command [str ''42''] On (admin_ctx (str ''/on'')) store_off =
     (None, store_on, [Reply (GREEN_CIRCLE @ str '' Bot is now ON. Signals will be forwarded.'')])"
  by code_simp

lemma run_off:
  "bot_command [str ''42''] Off (admin_ctx (str ''/off'')) store_on =
     (None, store_off, [Reply (RED_CIRCLE @ str '' Bot is now OFF. Signals are paused.'')])"
  by code_simp

lemma run_removechannel:
  "bot_command [str ''42''] RemoveChannel (admin_ctx (str ''/removechannel -1001234567890''))
       store_on =
     (None, store_no_channels, [Reply (CROSS_MARK @ str '' Channel -1001234567890 removed.'')])"
  "bot_command [str ''42''] RemoveChannel (admin_ctx (str ''/removechannel -1001234567890''))
       store_no_channels =
     (None, store_no_channels, [Reply (CROSS_MARK @ str '' Channel -1001234567890 removed.'')])"
  by code_simp+

lemma run_usage:
  "bot_command [str ''42''] AddChannel (admin_ctx (str ''/addchannel'')) store_on =
     (None, store_on, [Reply (str ''Usage: /addchannel <channel_id>'')])"
  "bot_command [str ''42''] RemoveChannel (admin_ctx (str ''/removechannel'')) store_on =
     (None, store_on, [Reply (str ''Usage: /removechannel <channel_id>'')])"
  by code_simp+

lemma run_list_empty:
  "bot_command [str ''42''] ListChannels (admin_ctx (str ''/list'')) store_no_channels =
     (None, store_no_channels,
      [ReplyWithMarkdown (BAR_CHART @ str '' *Bot Status:* '' @ GREEN_CIRCLE @ str '' ON'' @ LF @ LF
         @ str ''*Channels:*'' @ LF @ str ''None'')])"
  by code_simp

lemma run_unwritable:
  "bot_command [str ''42''] On (admin_ctx (str ''/on''))
       \<lparr>config_file = Some \<lparr>enabled = False, channels = []\<rparr>, writable = False\<rparr> =
     (Some ConfigUnwritable,
      \<lparr>config_file = Some \<lparr>enabled = False, channels = []\<rparr>, writable = False\<rparr>, [])"
  by code_simp

end
